theory Spec2Isabelle
  imports Main "HOL-Library.AList"
begin

section \<open>Multi-user todo service: the request handlers as HOL functions\<close>

text \<open>
  The handlers of \<^verbatim>\<open>src/api/tasks.py\<close>, \<^verbatim>\<open>src/api/auth.py\<close> and
  \<^verbatim>\<open>src/core/security.py\<close> are embedded as functions over an explicit database value.
  A handler that commits returns the database after the commit; a handler that raises
  returns the database it was given, since the exception leaves before any write.
  Every call of \<^verbatim>\<open>datetime.utcnow()\<close> is an argument of the handler that makes it.
\<close>

subsection \<open>Errors\<close>

type_synonym datetime = int

text \<open>
  \<^verbatim>\<open>HTTPException(status_code, detail)\<close> is what the handlers raise themselves;
  \<^verbatim>\<open>MultipleResultsFound\<close> is what \<^verbatim>\<open>scalar_one_or_none()\<close> raises on more than one row;
  \<^verbatim>\<open>IntegrityError\<close> is what a commit raises on a primary-key or unique violation.
\<close>

datatype error =
    HTTPException nat string
  | MultipleResultsFound
  | IntegrityError

definition HTTP_400_BAD_REQUEST :: nat where
  "HTTP_400_BAD_REQUEST = 400"

definition HTTP_404_NOT_FOUND :: nat where
  "HTTP_404_NOT_FOUND = 404"

subsection \<open>Schemas and table rows\<close>

text \<open>\<^verbatim>\<open>TaskCreate(TaskBase)\<close>: the field \<open>completed\<close> is inherited, with default false.\<close>

record TaskCreate =
  title :: string
  description :: "string option"
  completed :: bool

text \<open>\<^verbatim>\<open>TaskUpdate\<close>: every field optional, \<open>None\<close> when the body leaves it out.\<close>

record TaskUpdate =
  title :: "string option"
  description :: "string option"
  completed :: "bool option"

text \<open>\<^verbatim>\<open>SignupRequest\<close> of \<^verbatim>\<open>src/api/auth.py\<close>.\<close>

record SignupRequest =
  email :: string
  password :: string
  full_name :: string

text \<open>\<^verbatim>\<open>UserResponse\<close> and \<^verbatim>\<open>TokenResponse\<close> of \<^verbatim>\<open>src/api/auth.py\<close>.\<close>

record UserResponse =
  id' :: string
  email :: string
  name :: string

record TokenResponse =
  access_token :: string
  token_type :: string
  user :: UserResponse

text \<open>\<^verbatim>\<open>User\<close> of \<^verbatim>\<open>src/models/user.py\<close>: \<open>id\<close> is the primary key, \<open>email\<close> is unique.\<close>

record User =
  id' :: string
  email :: string
  name :: string
  password_hash :: string
  created_at :: datetime
  updated_at :: datetime

text \<open>
  A row of the task table. \<^verbatim>\<open>TaskResponse\<close> has the same eight fields and every handler
  fills each of them from the row's field of the same name, so a response is a value of
  this record as well.
\<close>

record Task =
  id' :: int
  title :: string
  description :: "string option"
  completed :: bool
  user_id :: string
  created_at :: datetime
  updated_at :: datetime
  completed_at :: "datetime option"

record TaskListResponse =
  tasks :: "Task list"
  total :: nat
  pending :: nat
  completed :: nat

text \<open>
  The storage: the rows of both tables in insertion order, and the sequence that assigns
  the next task id.
\<close>

record database =
  task_rows :: "Task list"
  task_id_seq :: int
  user_rows :: "User list"

subsection \<open>Query helpers\<close>

text \<open>\<^verbatim>\<open>result.scalar_one_or_none()\<close>: no row gives \<open>None\<close>, one row gives it, more rows raise.\<close>

fun scalar_one_or_none :: "'a list \<Rightarrow> error + 'a option" where
  "scalar_one_or_none [] = Inr None"
| "scalar_one_or_none [x] = Inr (Some x)"
| "scalar_one_or_none (x # y # zs) = Inl MultipleResultsFound"

text \<open>
  \<^verbatim>\<open>select(Task).where(and_(Task.id == task_id, Task.user_id == current_user.id))\<close>,
  the query that get, update, toggle and delete all run.
\<close>

definition select_task :: "database \<Rightarrow> int \<Rightarrow> User \<Rightarrow> Task list" where
  "select_task db task_id current_user =
     filter (\<lambda>t. Task.id' t = task_id \<and> Task.user_id t = User.id' current_user) (task_rows db)"

definition not_found_detail :: string where
  "not_found_detail = ''Task not found or you don't have permission to access it''"

text \<open>The commit of a changed row writes it over the row with its primary key.\<close>

definition commit_task :: "Task \<Rightarrow> database \<Rightarrow> database" where
  "commit_task task db =
     db\<lparr>task_rows := map (\<lambda>r. if Task.id' r = Task.id' task then task else r) (task_rows db)\<rparr>"

text \<open>\<^verbatim>\<open>session.delete(task)\<close> and the commit remove the row with its primary key.\<close>

definition delete_row :: "Task \<Rightarrow> database \<Rightarrow> database" where
  "delete_row task db =
     db\<lparr>task_rows := filter (\<lambda>r. Task.id' r \<noteq> Task.id' task) (task_rows db)\<rparr>"

subsection \<open>The task handlers\<close>

definition list_tasks :: "database \<Rightarrow> User \<Rightarrow> string option \<Rightarrow> TaskListResponse" where
  "list_tasks db current_user status_filter =
     (let query = filter (\<lambda>t. Task.user_id t = User.id' current_user) (task_rows db);
          found = (if status_filter = Some ''pending''
                     then filter (\<lambda>t. Task.completed t = False) query
                   else if status_filter = Some ''completed''
                     then filter (\<lambda>t. Task.completed t = True) query
                   else query)
      in \<lparr>TaskListResponse.tasks = found,
          TaskListResponse.total = length found,
          TaskListResponse.pending = length (filter (\<lambda>task. \<not> Task.completed task) found),
          TaskListResponse.completed = length (filter (\<lambda>task. Task.completed task) found)\<rparr>)"

text \<open>
  Modelled from the spec: the table model \<^verbatim>\<open>Task\<close> of \<^verbatim>\<open>src/models/task.py\<close> is not among
  the sources, so what its constructor and the insert fill in beyond the four keyword
  arguments of \<^verbatim>\<open>create_task\<close> follows the spec: \<open>completed_at\<close> starts null,
  \<open>created_at\<close> and \<open>updated_at\<close> are the current instant, and the id is assigned by the
  storage.
\<close>

definition Task_init :: "string \<Rightarrow> string option \<Rightarrow> bool \<Rightarrow> string \<Rightarrow> int \<Rightarrow> datetime \<Rightarrow> Task" where
  "Task_init title_arg description_arg completed_arg user_id_arg assigned_id now =
     \<lparr>Task.id' = assigned_id,
      Task.title = title_arg,
      Task.description = description_arg,
      Task.completed = completed_arg,
      Task.user_id = user_id_arg,
      Task.created_at = now,
      Task.updated_at = now,
      Task.completed_at = None\<rparr>"

definition create_task :: "database \<Rightarrow> TaskCreate \<Rightarrow> User \<Rightarrow> datetime \<Rightarrow> Task \<times> database" where
  "create_task db task_data current_user now =
     (let task = Task_init (TaskCreate.title task_data) (TaskCreate.description task_data)
                   False (User.id' current_user) (task_id_seq db) now
      in (task, db\<lparr>task_rows := task_rows db @ [task], task_id_seq := task_id_seq db + 1\<rparr>))"

definition get_task :: "database \<Rightarrow> int \<Rightarrow> User \<Rightarrow> error + Task" where
  "get_task db task_id current_user =
     (case scalar_one_or_none (select_task db task_id current_user) of
        Inl e \<Rightarrow> Inl e
      | Inr None \<Rightarrow> Inl (HTTPException HTTP_404_NOT_FOUND not_found_detail)
      | Inr (Some task) \<Rightarrow> Inr task)"

text \<open>
  The body of \<^verbatim>\<open>update_task\<close> after the lookup, statement by statement. The test
  \<^verbatim>\<open>task_data.completed and not task.completed\<close> reads \<^verbatim>\<open>task.completed\<close> after the
  assignment of the line before it, as the source does. \<open>now_completed\<close> is the clock read
  for \<open>completed_at\<close>, \<open>now_updated\<close> the one for \<open>updated_at\<close>.
\<close>

definition update_fields :: "Task \<Rightarrow> TaskUpdate \<Rightarrow> datetime \<Rightarrow> datetime \<Rightarrow> Task" where
  "update_fields task task_data now_completed now_updated =
     (let task1 = (case TaskUpdate.title task_data of
                     None \<Rightarrow> task
                   | Some v \<Rightarrow> task\<lparr>Task.title := v\<rparr>);
          task2 = (case TaskUpdate.description task_data of
                     None \<Rightarrow> task1
                   | Some v \<Rightarrow> task1\<lparr>Task.description := Some v\<rparr>);
          task3 = (case TaskUpdate.completed task_data of
                     None \<Rightarrow> task2
                   | Some c \<Rightarrow>
                       (let assigned = task2\<lparr>Task.completed := c\<rparr>
                        in if c \<and> \<not> Task.completed assigned
                             then assigned\<lparr>Task.completed_at := Some now_completed\<rparr>
                           else if \<not> c
                             then assigned\<lparr>Task.completed_at := None\<rparr>
                           else assigned))
      in task3\<lparr>Task.updated_at := now_updated\<rparr>)"

definition update_task ::
  "database \<Rightarrow> int \<Rightarrow> TaskUpdate \<Rightarrow> User \<Rightarrow> datetime \<Rightarrow> datetime \<Rightarrow> (error + Task) \<times> database" where
  "update_task db task_id task_data current_user now_completed now_updated =
     (case scalar_one_or_none (select_task db task_id current_user) of
        Inl e \<Rightarrow> (Inl e, db)
      | Inr None \<Rightarrow> (Inl (HTTPException HTTP_404_NOT_FOUND not_found_detail), db)
      | Inr (Some task) \<Rightarrow>
          (let task' = update_fields task task_data now_completed now_updated
           in (Inr task', commit_task task' db)))"

text \<open>The body of \<^verbatim>\<open>toggle_task_completion\<close> after the lookup.\<close>

definition toggle_fields :: "Task \<Rightarrow> TaskUpdate \<Rightarrow> datetime \<Rightarrow> datetime \<Rightarrow> Task" where
  "toggle_fields task completed_data now_completed now_updated =
     (let task1 = (case TaskUpdate.completed completed_data of
                     None \<Rightarrow> task
                   | Some c \<Rightarrow>
                       (let assigned = task\<lparr>Task.completed := c\<rparr>
                        in if c
                             then assigned\<lparr>Task.completed_at := Some now_completed\<rparr>
                           else assigned\<lparr>Task.completed_at := None\<rparr>))
      in task1\<lparr>Task.updated_at := now_updated\<rparr>)"

definition toggle_task_completion ::
  "database \<Rightarrow> int \<Rightarrow> TaskUpdate \<Rightarrow> User \<Rightarrow> datetime \<Rightarrow> datetime \<Rightarrow> (error + Task) \<times> database" where
  "toggle_task_completion db task_id completed_data current_user now_completed now_updated =
     (case scalar_one_or_none (select_task db task_id current_user) of
        Inl e \<Rightarrow> (Inl e, db)
      | Inr None \<Rightarrow> (Inl (HTTPException HTTP_404_NOT_FOUND not_found_detail), db)
      | Inr (Some task) \<Rightarrow>
          (let task' = toggle_fields task completed_data now_completed now_updated
           in (Inr task', commit_task task' db)))"

definition delete_task ::
  "database \<Rightarrow> int \<Rightarrow> User \<Rightarrow> (error + (string \<times> string) list) \<times> database" where
  "delete_task db task_id current_user =
     (case scalar_one_or_none (select_task db task_id current_user) of
        Inl e \<Rightarrow> (Inl e, db)
      | Inr None \<Rightarrow> (Inl (HTTPException HTTP_404_NOT_FOUND not_found_detail), db)
      | Inr (Some task) \<Rightarrow>
          (Inr [(''message'', ''Task deleted successfully'')], delete_row task db))"

section \<open>Tokens and signup\<close>

subsection \<open>Settings\<close>

text \<open>The defaults of \<^verbatim>\<open>Settings\<close> in \<^verbatim>\<open>src/core/config.py\<close>.\<close>

definition JWT_SECRET :: string where
  "JWT_SECRET = ''your-super-secret-jwt-key-here-32+chars''"

definition JWT_ALGORITHM :: string where
  "JWT_ALGORITHM = ''HS256''"

definition JWT_EXPIRATION :: int where
  "JWT_EXPIRATION = 604800"

subsection \<open>The token functions of \<^verbatim>\<open>src/core/security.py\<close>\<close>

text \<open>
  A token payload is a dictionary; its values are strings (the user id) or instants
  (the expiry). Durations and instants are counted in seconds.
\<close>

datatype claim = Str string | Instant datetime

type_synonym payload = "(string \<times> claim) list"

text \<open>
  What a call of \<^verbatim>\<open>jwt.decode\<close> can raise. The library's exception classes form a tree
  under \<^verbatim>\<open>PyJWTError\<close>: \<^verbatim>\<open>InvalidSignatureError\<close> (the signature does not match),
  \<^verbatim>\<open>ExpiredSignatureError\<close> (the \<open>exp\<close> claim is in the past) and \<^verbatim>\<open>DecodeError\<close>
  (the token is malformed) are among its subclasses. \<open>OtherException\<close> stands for anything
  raised that is not a \<^verbatim>\<open>PyJWTError\<close>.
\<close>

datatype jwt_error =
    InvalidSignatureError
  | ExpiredSignatureError
  | DecodeError
  | InvalidTokenError

datatype raised = PyJWTError jwt_error | OtherException string

text \<open>
  The library itself is a parameter: \<open>jwt_encode payload key algorithm\<close> for
  \<^verbatim>\<open>jwt.encode\<close>, \<open>jwt_decode token key algorithms\<close> for \<^verbatim>\<open>jwt.decode\<close>.
\<close>

type_synonym jwt_encode = "payload \<Rightarrow> string \<Rightarrow> string \<Rightarrow> string"

type_synonym jwt_decode = "string \<Rightarrow> string \<Rightarrow> string list \<Rightarrow> raised + payload"

text \<open>
  \<^verbatim>\<open>if expires_delta:\<close> tests the truth value of the argument: \<open>None\<close> and a zero
  duration both take the \<^verbatim>\<open>else\<close> branch.
\<close>

definition create_access_token ::
  "jwt_encode \<Rightarrow> payload \<Rightarrow> int option \<Rightarrow> datetime \<Rightarrow> string" where
  "create_access_token encode data expires_delta now =
     (let expire = (case expires_delta of
                      None \<Rightarrow> now + JWT_EXPIRATION
                    | Some d \<Rightarrow> if d \<noteq> 0 then now + d else now + JWT_EXPIRATION);
          to_encode = AList.update ''exp'' (Instant expire) data
      in encode to_encode JWT_SECRET JWT_ALGORITHM)"

text \<open>
  \<^verbatim>\<open>verify_token\<close>: the \<^verbatim>\<open>except jwt.PyJWTError\<close> clause turns every exception of that
  class into the result \<open>None\<close>; any other exception leaves the function (\<open>Inl\<close>).
\<close>

definition verify_token :: "jwt_decode \<Rightarrow> string \<Rightarrow> raised + payload option" where
  "verify_token decode token =
     (case decode token JWT_SECRET [JWT_ALGORITHM] of
        Inr payload \<Rightarrow> Inr (Some payload)
      | Inl (PyJWTError e) \<Rightarrow> Inr None
      | Inl (OtherException e) \<Rightarrow> Inl (OtherException e))"

subsection \<open>Signup\<close>

text \<open>
  \<^verbatim>\<open>signup\<close> of \<^verbatim>\<open>src/api/auth.py\<close>. \<open>get_password_hash\<close> is the hashing library,
  \<open>uuid4\<close> the identifier drawn by the \<^verbatim>\<open>default_factory\<close> of \<^verbatim>\<open>User.id\<close>;
  \<open>now_created\<close> and \<open>now_updated\<close> are the clock reads of the two timestamp factories,
  \<open>now_token\<close> the one of \<^verbatim>\<open>create_access_token\<close>. The insert fails on a primary key
  that is already in the table.
\<close>

definition signup ::
  "jwt_encode \<Rightarrow> (string \<Rightarrow> string) \<Rightarrow> database \<Rightarrow> SignupRequest \<Rightarrow> string
     \<Rightarrow> datetime \<Rightarrow> datetime \<Rightarrow> datetime \<Rightarrow> (error + TokenResponse) \<times> database" where
  "signup encode get_password_hash db user_data uuid4 now_created now_updated now_token =
     (case scalar_one_or_none
             (filter (\<lambda>u. User.email u = SignupRequest.email user_data) (user_rows db)) of
        Inl e \<Rightarrow> (Inl e, db)
      | Inr (Some existing_user) \<Rightarrow>
          (Inl (HTTPException HTTP_400_BAD_REQUEST ''Email already registered''), db)
      | Inr None \<Rightarrow>
          (let hashed_pw = get_password_hash (SignupRequest.password user_data);
               new_user = \<lparr>User.id' = uuid4,
                           User.email = SignupRequest.email user_data,
                           User.name = SignupRequest.full_name user_data,
                           User.password_hash = hashed_pw,
                           User.created_at = now_created,
                           User.updated_at = now_updated\<rparr>
           in if uuid4 \<in> set (map User.id' (user_rows db))
                then (Inl IntegrityError, db)
              else
                (let access_token =
                       create_access_token encode
                         [(''user_id'', Str (User.id' new_user))] None now_token
                 in (Inr \<lparr>TokenResponse.access_token = access_token,
                          TokenResponse.token_type = ''bearer'',
                          TokenResponse.user =
                            \<lparr>UserResponse.id' = User.id' new_user,
                             UserResponse.email = User.email new_user,
                             UserResponse.name = User.name new_user\<rparr>\<rparr>,
                     db\<lparr>user_rows := user_rows db @ [new_user]\<rparr>))))"

section \<open>Sample data\<close>

definition alice :: User where
  "alice = \<lparr>User.id' = ''u-alice'', User.email = ''alice@example.com'', User.name = ''Alice'',
            User.password_hash = ''h1'', User.created_at = 1, User.updated_at = 1\<rparr>"

definition bob :: User where
  "bob = \<lparr>User.id' = ''u-bob'', User.email = ''bob@example.com'', User.name = ''Bob'',
          User.password_hash = ''h2'', User.created_at = 2, User.updated_at = 2\<rparr>"

definition task1 :: Task where
  "task1 = \<lparr>Task.id' = 1, Task.title = ''Buy Groceries'',
            Task.description = Some ''Milk, Bread, Eggs'', Task.completed = False,
            Task.user_id = ''u-alice'', Task.created_at = 10, Task.updated_at = 10,
            Task.completed_at = None\<rparr>"

definition task2 :: Task where
  "task2 = \<lparr>Task.id' = 2, Task.title = ''Pay rent'', Task.description = None,
            Task.completed = False, Task.user_id = ''u-alice'', Task.created_at = 11,
            Task.updated_at = 11, Task.completed_at = None\<rparr>"

definition task3 :: Task where
  "task3 = \<lparr>Task.id' = 3, Task.title = ''Call plumber'', Task.description = None,
            Task.completed = True, Task.user_id = ''u-alice'', Task.created_at = 12,
            Task.updated_at = 20, Task.completed_at = Some 20\<rparr>"

definition task4 :: Task where
  "task4 = \<lparr>Task.id' = 4, Task.title = ''Water plants'', Task.description = None,
            Task.completed = False, Task.user_id = ''u-bob'', Task.created_at = 13,
            Task.updated_at = 13, Task.completed_at = None\<rparr>"

definition sample_db :: database where
  "sample_db = \<lparr>task_rows = [task1, task2, task3, task4], task_id_seq = 5,
                user_rows = [alice, bob]\<rparr>"

definition empty_db :: database where
  "empty_db = \<lparr>task_rows = [], task_id_seq = 1, user_rows = [alice, bob]\<rparr>"

definition groceries :: TaskCreate where
  "groceries = \<lparr>TaskCreate.title = ''Buy Groceries'',
                TaskCreate.description = Some ''Milk, Bread, Eggs'',
                TaskCreate.completed = True\<rparr>"

definition set_completed :: "bool \<Rightarrow> TaskUpdate" where
  "set_completed c = \<lparr>TaskUpdate.title = None, TaskUpdate.description = None,
                      TaskUpdate.completed = Some c\<rparr>"

definition rename_only :: TaskUpdate where
  "rename_only = \<lparr>TaskUpdate.title = Some ''Buy Food'', TaskUpdate.description = None,
                  TaskUpdate.completed = None\<rparr>"

definition alice_again :: SignupRequest where
  "alice_again = \<lparr>SignupRequest.email = ''alice@example.com'', SignupRequest.password = ''pw'',
                  SignupRequest.full_name = ''Alice Two''\<rparr>"

definition sample_encode :: jwt_encode where
  "sample_encode p key alg = alg @ ''.'' @ key"

definition sample_decode :: jwt_decode where
  "sample_decode token key algorithms =
     (if token = ''good'' then Inr [(''user_id'', Str ''u-alice''), (''exp'', Instant 900)]
      else if token = ''privileged''
        then Inr [(''user_id'', Str ''u-alice''), (''exp'', Instant 900),
                  (''is_admin'', Str ''true'')]
      else if token = ''forged'' then Inl (PyJWTError InvalidSignatureError)
      else if token = ''old'' then Inl (PyJWTError ExpiredSignatureError)
      else if token = ''crash'' then Inl (OtherException ''ValueError'')
      else Inl (PyJWTError DecodeError))"

section \<open>Properties of the task handlers\<close>

text \<open>
  C10: in every response of \<open>list_tasks\<close>, for every caller and every status filter,
  the three counts satisfy \<open>total = pending + completed\<close>: the pending and the completed
  tasks partition the returned list.
\<close>

theorem list_tasks_total_is_sum:
  "TaskListResponse.total (list_tasks db current_user status_filter) =
     TaskListResponse.pending (list_tasks db current_user status_filter)
       + TaskListResponse.completed (list_tasks db current_user status_filter)"
proof -
  define found where "found = TaskListResponse.tasks (list_tasks db current_user status_filter)"
  have counts:
    "TaskListResponse.total (list_tasks db current_user status_filter) = length found"
    "TaskListResponse.pending (list_tasks db current_user status_filter)
       = length (filter (\<lambda>task. \<not> Task.completed task) found)"
    "TaskListResponse.completed (list_tasks db current_user status_filter)
       = length (filter (\<lambda>task. Task.completed task) found)"
    by (simp_all add: found_def list_tasks_def Let_def)
  have "length (filter (\<lambda>task. Task.completed task) found)
          + length (filter (\<lambda>task. \<not> Task.completed task) found) = length found"
    by (rule sum_length_filter_compl)
  with counts show ?thesis
    by (simp only: add.commute)
qed

subsection \<open>Lookups by id and owner\<close>

lemma filter_key_none:
  assumes "distinct (map k xs)" and "t \<in> set xs" and "\<not> P t"
  shows "filter (\<lambda>x. k x = k t \<and> P x) xs = []"
proof -
  have "inj_on k (set xs)"
    using assms(1) by (simp add: distinct_map)
  then have "x = t" if "x \<in> set xs" and "k x = k t" for x
    using that assms(2) by (auto dest: inj_onD)
  then have "\<not> (k x = k t \<and> P x)" if "x \<in> set xs" for x
    using that assms(3) by blast
  then show ?thesis
    by (simp add: filter_empty_conv)
qed

lemma filter_key_missing:
  "key \<notin> k ` set xs \<Longrightarrow> filter (\<lambda>x. k x = key \<and> P x) xs = []"
  by (induction xs) auto

lemma filter_key_one:
  assumes "distinct (map k xs)" and "t \<in> set xs" and "P t"
  shows "filter (\<lambda>x. k x = k t \<and> P x) xs = [t]"
  using assms
proof (induction xs)
  case Nil
  then show ?case by simp
next
  case (Cons a xs)
  show ?case
  proof (cases "a = t")
    case True
    with Cons.prems have "k t \<notin> k ` set xs" by simp
    then have "filter (\<lambda>x. k x = k t \<and> P x) xs = []"
      by (rule filter_key_missing)
    with True Cons.prems(3) show ?thesis by simp
  next
    case False
    with Cons.prems have "t \<in> set xs" and "distinct (map k xs)" and "k a \<noteq> k t"
      by auto
    with Cons.IH Cons.prems(3) show ?thesis by simp
  qed
qed

lemma select_task_foreign:
  assumes "distinct (map Task.id' (task_rows db))" and "t \<in> set (task_rows db)"
    and "Task.user_id t \<noteq> User.id' u"
  shows "select_task db (Task.id' t) u = []"
  unfolding select_task_def using assms by (rule filter_key_none)

lemma select_task_own:
  assumes "distinct (map Task.id' (task_rows db))" and "t \<in> set (task_rows db)"
    and "Task.user_id t = User.id' u"
  shows "select_task db (Task.id' t) u = [t]"
  unfolding select_task_def using assms by (rule filter_key_one)

lemma select_task_missing:
  "task_id \<notin> Task.id' ` set (task_rows db) \<Longrightarrow> select_task db task_id u = []"
  unfolding select_task_def by (rule filter_key_missing)

lemma not_found_literal:
  "HTTPException HTTP_404_NOT_FOUND not_found_detail
     = HTTPException 404 ''Task not found or you don't have permission to access it''"
  by (simp add: HTTP_404_NOT_FOUND_def not_found_detail_def)

lemma handlers_no_row:
  assumes "select_task db task_id u = []"
  shows "get_task db task_id u = Inl (HTTPException HTTP_404_NOT_FOUND not_found_detail)"
    and "update_task db task_id p u n1 n2
           = (Inl (HTTPException HTTP_404_NOT_FOUND not_found_detail), db)"
    and "toggle_task_completion db task_id p u n1 n2
           = (Inl (HTTPException HTTP_404_NOT_FOUND not_found_detail), db)"
    and "delete_task db task_id u
           = (Inl (HTTPException HTTP_404_NOT_FOUND not_found_detail), db)"
  using assms
  by (simp_all add: get_task_def update_task_def toggle_task_completion_def delete_task_def)

lemma handlers_one_row:
  assumes "select_task db task_id u = [t]"
  shows "get_task db task_id u = Inr t"
    and "update_task db task_id p u n1 n2
           = (Inr (update_fields t p n1 n2), commit_task (update_fields t p n1 n2) db)"
    and "toggle_task_completion db task_id p u n1 n2
           = (Inr (toggle_fields t p n1 n2), commit_task (toggle_fields t p n1 n2) db)"
    and "delete_task db task_id u
           = (Inr [(''message'', ''Task deleted successfully'')], delete_row t db)"
  using assms
  by (simp_all add: get_task_def update_task_def toggle_task_completion_def delete_task_def
        Let_def)

text \<open>
  C1: for distinct owners A and B and a task owned by B, the handlers \<open>get_task\<close>,
  \<open>update_task\<close>, \<open>toggle_task_completion\<close> and \<open>delete_task\<close> called with A's
  identity and the task's id raise HTTP 404 with the one fixed message and leave the
  database as it was, so the task is neither returned, changed nor deleted; each outcome
  is equal to the outcome for an id that no task has. Task ids are the primary key of
  the table, hence distinct.
\<close>

theorem foreign_task_not_found:
  assumes "User.id' a \<noteq> User.id' b"
    and "distinct (map Task.id' (task_rows db))"
    and "t \<in> set (task_rows db)"
    and "Task.user_id t = User.id' b"
    and "missing \<notin> Task.id' ` set (task_rows db)"
  shows "get_task db (Task.id' t) a
           = Inl (HTTPException 404 ''Task not found or you don't have permission to access it'')
       \<and> update_task db (Task.id' t) p a n1 n2
           = (Inl (HTTPException 404 ''Task not found or you don't have permission to access it''), db)
       \<and> toggle_task_completion db (Task.id' t) p a n1 n2
           = (Inl (HTTPException 404 ''Task not found or you don't have permission to access it''), db)
       \<and> delete_task db (Task.id' t) a
           = (Inl (HTTPException 404 ''Task not found or you don't have permission to access it''), db)
       \<and> get_task db (Task.id' t) a = get_task db missing a
       \<and> update_task db (Task.id' t) p a n1 n2 = update_task db missing p a n1 n2
       \<and> toggle_task_completion db (Task.id' t) p a n1 n2
           = toggle_task_completion db missing p a n1 n2
       \<and> delete_task db (Task.id' t) a = delete_task db missing a"
proof -
  from assms(1,4) have "Task.user_id t \<noteq> User.id' a" by simp
  with assms(2,3) have foreign: "select_task db (Task.id' t) a = []"
    by (rule select_task_foreign)
  from assms(5) have absent: "select_task db missing a = []"
    by (rule select_task_missing)
  show ?thesis
    by (simp only: handlers_no_row [OF foreign] handlers_no_row [OF absent] not_found_literal)
qed

lemma sample_ids: "map Task.id' (task_rows sample_db) = [1, 2, 3, 4]"
  by (simp add: sample_db_def task1_def task2_def task3_def task4_def)

theorem foreign_task_not_found_witness:
  "User.id' alice \<noteq> User.id' bob
   \<and> distinct (map Task.id' (task_rows sample_db))
   \<and> task4 \<in> set (task_rows sample_db)
   \<and> Task.user_id task4 = User.id' bob
   \<and> 9 \<notin> Task.id' ` set (task_rows sample_db)
   \<and> get_task sample_db (Task.id' task4) alice
       = Inl (HTTPException 404 ''Task not found or you don't have permission to access it'')
   \<and> get_task sample_db (Task.id' task4) alice = get_task sample_db 9 alice
   \<and> delete_task sample_db (Task.id' task4) alice = delete_task sample_db 9 alice
   \<and> update_task sample_db (Task.id' task4) (set_completed True) alice 30 31
       = (Inl (HTTPException 404 ''Task not found or you don't have permission to access it''),
          sample_db)"
proof -
  have h1: "User.id' alice \<noteq> User.id' bob"
    by (simp add: alice_def bob_def)
  have h2: "distinct (map Task.id' (task_rows sample_db))"
    by (simp add: sample_ids)
  have h3: "task4 \<in> set (task_rows sample_db)"
    by (simp add: sample_db_def)
  have h4: "Task.user_id task4 = User.id' bob"
    by (simp add: task4_def bob_def)
  have h5: "9 \<notin> Task.id' ` set (task_rows sample_db)"
    using sample_ids by (simp flip: set_map)
  note r = foreign_task_not_found [OF h1 h2 h3 h4 h5, of "set_completed True" 30 31]
  from r h1 h2 h3 h4 h5 show ?thesis
    by blast
qed

subsection \<open>Completion and its timestamp\<close>

lemma select_sample:
  "select_task sample_db 2 alice = [task2]"
  "select_task sample_db 3 alice = [task3]"
  "select_task sample_db 1 alice = [task1]"
  by (simp_all add: select_task_def sample_db_def task1_def task2_def task3_def task4_def
        alice_def)

text \<open>
  C2: after every successful create, update or toggle call a task is completed if and
  only if its \<open>completed_at\<close> is set. The update handler does not keep this: on the
  task that \<open>create_task\<close> has just stored, the patch \<open>completed = true\<close> returns a task
  with \<open>completed\<close> true and \<open>completed_at\<close> still null, because the guard that stamps
  \<open>completed_at\<close> reads \<open>task.completed\<close> after the assignment has made it true.
\<close>

theorem create_then_complete_leaves_completed_at_null:
  "fst (update_task (snd (create_task empty_db groceries alice 100)) 1
          (set_completed True) alice 200 201)
     = Inr \<lparr>Task.id' = 1, Task.title = ''Buy Groceries'',
            Task.description = Some ''Milk, Bread, Eggs'', Task.completed = True,
            Task.user_id = ''u-alice'', Task.created_at = 100, Task.updated_at = 201,
            Task.completed_at = None\<rparr>"
  by (simp add: update_task_def create_task_def Task_init_def select_task_def empty_db_def
        groceries_def alice_def set_completed_def update_fields_def Let_def)

text \<open>
  C3: when \<open>update_task\<close> receives \<open>completed = true\<close> for a task that was not
  completed, \<open>completed_at\<close> is to become the instant of the call. On the pending task 2
  of the sample database the handler returns the task with \<open>completed\<close> true,
  \<open>updated_at\<close> advanced and \<open>completed_at\<close> null, not the instant 30 of the call.
\<close>

theorem update_pending_to_completed_not_stamped:
  "\<not> Task.completed task2
   \<and> fst (update_task sample_db 2 (set_completed True) alice 30 31)
       = Inr (task2\<lparr>Task.completed := True, Task.updated_at := 31\<rparr>)
   \<and> Task.completed_at (task2\<lparr>Task.completed := True, Task.updated_at := 31\<rparr>) = None"
proof -
  have "update_fields task2 (set_completed True) 30 31
          = task2\<lparr>Task.completed := True, Task.updated_at := 31\<rparr>"
    by (simp add: update_fields_def set_completed_def Let_def)
  then show ?thesis
    by (simp add: handlers_one_row [OF select_sample(1)] task2_def)
qed

text \<open>
  C4, as stated, fails: on task 3 of the sample database, already completed at instant
  20, the patch \<open>completed = true\<close> gives different outcomes through the two handlers;
  \<open>toggle_task_completion\<close> stamps \<open>completed_at\<close> again with the instant of the call,
  \<open>update_task\<close> stamps only a task that is not yet completed and keeps 20.
\<close>

theorem update_toggle_differ_on_completed_task:
  "update_task sample_db 3 (set_completed True) alice 30 31
     \<noteq> toggle_task_completion sample_db 3 (set_completed True) alice 30 31"
proof -
  have "Task.completed_at (update_fields task3 (set_completed True) 30 31) = Some 20"
    by (simp add: update_fields_def set_completed_def Let_def task3_def)
  moreover have "Task.completed_at (toggle_fields task3 (set_completed True) 30 31) = Some 30"
    by (simp add: toggle_fields_def set_completed_def Let_def)
  ultimately have "update_fields task3 (set_completed True) 30 31
                     \<noteq> toggle_fields task3 (set_completed True) 30 31"
    by auto
  then show ?thesis
    by (simp add: handlers_one_row [OF select_sample(2)])
qed

lemma fields_agree_unless_completing:
  assumes "TaskUpdate.title p = None" and "TaskUpdate.description p = None"
    and "TaskUpdate.completed p \<noteq> Some True"
  shows "update_fields t p n1 n2 = toggle_fields t p n1 n2"
  using assms
  by (cases "TaskUpdate.completed p") (simp_all add: update_fields_def toggle_fields_def Let_def)

lemma fields_agree_up_to_completed_at:
  assumes "TaskUpdate.title p = None" and "TaskUpdate.description p = None"
  shows "(update_fields t p n1 n2)
            \<lparr>Task.completed_at := Task.completed_at (toggle_fields t p n1 n2)\<rparr>
          = toggle_fields t p n1 n2"
  using assms
  by (cases "TaskUpdate.completed p") (simp_all add: update_fields_def toggle_fields_def Let_def)

text \<open>
  C4, amended: for a patch that carries only \<open>completed\<close>, \<open>update_task\<close> and
  \<open>toggle_task_completion\<close> have the same outcome, returned task and database alike,
  whenever \<open>completed\<close> is absent or false; and for a task of the caller both succeed and
  return tasks that agree on every field except possibly \<open>completed_at\<close>. For
  \<open>completed = true\<close> both return \<open>completed\<close> true, the toggle handler sets
  \<open>completed_at\<close> to the instant of the call, and the update handler keeps the
  \<open>completed_at\<close> of a task that was already completed.
\<close>

theorem update_toggle_agree_unless_completing:
  assumes "TaskUpdate.title p = None" and "TaskUpdate.description p = None"
  shows "(TaskUpdate.completed p \<noteq> Some True \<longrightarrow>
            update_task db task_id p u n1 n2 = toggle_task_completion db task_id p u n1 n2)
       \<and> (select_task db task_id u = [t] \<longrightarrow>
            (\<exists>ru rt. fst (update_task db task_id p u n1 n2) = Inr ru
                   \<and> fst (toggle_task_completion db task_id p u n1 n2) = Inr rt
                   \<and> ru\<lparr>Task.completed_at := Task.completed_at rt\<rparr> = rt
                   \<and> (TaskUpdate.completed p = Some True \<longrightarrow>
                        Task.completed rt \<and> Task.completed ru
                        \<and> Task.completed_at rt = Some n1
                        \<and> (Task.completed t \<longrightarrow>
                              Task.completed_at ru = Task.completed_at t))))"
proof (intro conjI impI)
  assume "TaskUpdate.completed p \<noteq> Some True"
  with assms have "update_fields x p n1 n2 = toggle_fields x p n1 n2" for x
    by (rule fields_agree_unless_completing)
  then show "update_task db task_id p u n1 n2 = toggle_task_completion db task_id p u n1 n2"
    by (simp add: update_task_def toggle_task_completion_def Let_def
          split: sum.split option.split)
next
  assume row: "select_task db task_id u = [t]"
  have stamp: "Task.completed (toggle_fields t p n1 n2) \<and> Task.completed (update_fields t p n1 n2)
               \<and> Task.completed_at (toggle_fields t p n1 n2) = Some n1
               \<and> (Task.completed t \<longrightarrow>
                     Task.completed_at (update_fields t p n1 n2) = Task.completed_at t)"
    if "TaskUpdate.completed p = Some True"
    using that assms
    by (simp add: update_fields_def toggle_fields_def Let_def split: option.splits)
  from assms have "(update_fields t p n1 n2)
            \<lparr>Task.completed_at := Task.completed_at (toggle_fields t p n1 n2)\<rparr>
          = toggle_fields t p n1 n2"
    by (rule fields_agree_up_to_completed_at)
  with stamp show "\<exists>ru rt. fst (update_task db task_id p u n1 n2) = Inr ru
                   \<and> fst (toggle_task_completion db task_id p u n1 n2) = Inr rt
                   \<and> ru\<lparr>Task.completed_at := Task.completed_at rt\<rparr> = rt
                   \<and> (TaskUpdate.completed p = Some True \<longrightarrow>
                        Task.completed rt \<and> Task.completed ru
                        \<and> Task.completed_at rt = Some n1
                        \<and> (Task.completed t \<longrightarrow>
                              Task.completed_at ru = Task.completed_at t))"
    by (simp add: handlers_one_row [OF row])
qed

theorem update_toggle_agree_unless_completing_witness:
  "TaskUpdate.title (set_completed False) = None
   \<and> TaskUpdate.description (set_completed False) = None
   \<and> TaskUpdate.completed (set_completed False) \<noteq> Some True
   \<and> TaskUpdate.completed (set_completed True) = Some True
   \<and> select_task sample_db 3 alice = [task3]
   \<and> Task.completed task3
   \<and> update_task sample_db 3 (set_completed False) alice 30 31
       = toggle_task_completion sample_db 3 (set_completed False) alice 30 31
   \<and> fst (update_task sample_db 3 (set_completed False) alice 30 31)
       = Inr (task3\<lparr>Task.completed := False, Task.completed_at := None, Task.updated_at := 31\<rparr>)
   \<and> (\<exists>ru rt. fst (update_task sample_db 3 (set_completed True) alice 30 31) = Inr ru
          \<and> fst (toggle_task_completion sample_db 3 (set_completed True) alice 30 31) = Inr rt
          \<and> Task.completed_at rt = Some 30
          \<and> Task.completed_at ru = Task.completed_at task3)"
proof -
  have h1: "TaskUpdate.title (set_completed c) = None"
    and h2: "TaskUpdate.description (set_completed c) = None" for c
    by (simp_all add: set_completed_def)
  have h3: "TaskUpdate.completed (set_completed False) \<noteq> Some True"
    and h3': "TaskUpdate.completed (set_completed True) = Some True"
    by (simp_all add: set_completed_def)
  note h4 = select_sample(2)
  have h5: "Task.completed task3"
    by (simp add: task3_def)
  have outcome: "fst (update_task sample_db 3 (set_completed False) alice 30 31)
       = Inr (task3\<lparr>Task.completed := False, Task.completed_at := None, Task.updated_at := 31\<rparr>)"
    by (simp add: handlers_one_row [OF h4] update_fields_def set_completed_def Let_def)
  note off = update_toggle_agree_unless_completing
               [OF h1 h2, of False sample_db 3 alice 30 31 task3]
  note on = update_toggle_agree_unless_completing
               [OF h1 h2, of True sample_db 3 alice 30 31 task3]
  from off h3 have same: "update_task sample_db 3 (set_completed False) alice 30 31
       = toggle_task_completion sample_db 3 (set_completed False) alice 30 31"
    by blast
  from on h3' h4 h5 have stamped:
    "\<exists>ru rt. fst (update_task sample_db 3 (set_completed True) alice 30 31) = Inr ru
          \<and> fst (toggle_task_completion sample_db 3 (set_completed True) alice 30 31) = Inr rt
          \<and> Task.completed_at rt = Some 30
          \<and> Task.completed_at ru = Task.completed_at task3"
    by blast
  from h1 [of False] h2 [of False] h3 h3' h4 h5 same outcome stamped
  show ?thesis by blast
qed

subsection \<open>Listing and counting\<close>

lemma alice_rows:
  "filter (\<lambda>t. Task.user_id t = User.id' alice) (task_rows sample_db) = [task1, task2, task3]"
  by (simp add: sample_db_def task1_def task2_def task3_def task4_def alice_def)

lemma sample_flags:
  "\<not> Task.completed task1" "\<not> Task.completed task2" "Task.completed task3"
  by (simp_all add: task1_def task2_def task3_def)

text \<open>
  C5, as stated, fails: in the sample database the caller owns two pending tasks and one
  completed task; with the status filter \<open>pending\<close> the returned \<open>total\<close> is not the
  number of the caller's tasks and the returned \<open>completed\<close> is not the number of the
  caller's completed tasks, since the counts are taken from the filtered list.
\<close>

theorem list_tasks_pending_counts_returned_only:
  "TaskListResponse.total (list_tasks sample_db alice (Some ''pending''))
     \<noteq> length (filter (\<lambda>t. Task.user_id t = User.id' alice) (task_rows sample_db))
   \<and> TaskListResponse.completed (list_tasks sample_db alice (Some ''pending''))
     \<noteq> length (filter (\<lambda>t. Task.completed t)
                 (filter (\<lambda>t. Task.user_id t = User.id' alice) (task_rows sample_db)))"
  by (simp add: list_tasks_def Let_def alice_rows sample_flags)

text \<open>
  C5, amended: \<open>list_tasks\<close> filters by owner first, then by completion state, and the
  three counts are computed over the list it returns: \<open>total\<close> is its length,
  \<open>pending\<close> the number of its tasks that are not completed, \<open>completed\<close> the number of
  those that are. Only for a status filter other than \<open>pending\<close> and \<open>completed\<close>
  (such as \<open>all\<close>) are these the counts over all tasks of the caller.
\<close>

theorem list_tasks_counts_over_returned:
  "TaskListResponse.tasks (list_tasks db u f)
     = (if f = Some ''pending''
          then filter (\<lambda>t. \<not> Task.completed t)
                 (filter (\<lambda>t. Task.user_id t = User.id' u) (task_rows db))
        else if f = Some ''completed''
          then filter (\<lambda>t. Task.completed t)
                 (filter (\<lambda>t. Task.user_id t = User.id' u) (task_rows db))
        else filter (\<lambda>t. Task.user_id t = User.id' u) (task_rows db))
   \<and> TaskListResponse.total (list_tasks db u f)
       = length (TaskListResponse.tasks (list_tasks db u f))
   \<and> TaskListResponse.pending (list_tasks db u f)
       = length (filter (\<lambda>t. \<not> Task.completed t) (TaskListResponse.tasks (list_tasks db u f)))
   \<and> TaskListResponse.completed (list_tasks db u f)
       = length (filter (\<lambda>t. Task.completed t) (TaskListResponse.tasks (list_tasks db u f)))
   \<and> (f \<noteq> Some ''pending'' \<and> f \<noteq> Some ''completed'' \<longrightarrow>
        TaskListResponse.total (list_tasks db u f)
          = length (filter (\<lambda>t. Task.user_id t = User.id' u) (task_rows db))
        \<and> TaskListResponse.pending (list_tasks db u f)
          = length (filter (\<lambda>t. \<not> Task.completed t)
                      (filter (\<lambda>t. Task.user_id t = User.id' u) (task_rows db)))
        \<and> TaskListResponse.completed (list_tasks db u f)
          = length (filter (\<lambda>t. Task.completed t)
                      (filter (\<lambda>t. Task.user_id t = User.id' u) (task_rows db))))"
  by (simp add: list_tasks_def Let_def)

theorem list_tasks_counts_over_returned_witness:
  "Some ''all'' \<noteq> Some ''pending'' \<and> Some ''all'' \<noteq> Some ''completed''
   \<and> TaskListResponse.total (list_tasks sample_db alice (Some ''all'')) = 3
   \<and> TaskListResponse.pending (list_tasks sample_db alice (Some ''all'')) = 2
   \<and> TaskListResponse.completed (list_tasks sample_db alice (Some ''all'')) = 1"
  using list_tasks_counts_over_returned [of sample_db alice "Some ''all''"]
  by (simp add: alice_rows sample_flags)

subsection \<open>Creating and patching\<close>

text \<open>
  C6: for every caller and every create input, whatever \<open>completed\<close> value the client
  sent, the task returned by \<open>create_task\<close> has \<open>completed\<close> false, \<open>completed_at\<close>
  null, the caller's id as owner, and \<open>created_at\<close> and \<open>updated_at\<close> equal to the
  instant of the call; title and description are the input's, and the task is the row
  appended to the table.
\<close>

theorem create_task_result:
  "Task.completed (fst (create_task db task_data current_user now)) = False
   \<and> Task.completed_at (fst (create_task db task_data current_user now)) = None
   \<and> Task.user_id (fst (create_task db task_data current_user now)) = User.id' current_user
   \<and> Task.created_at (fst (create_task db task_data current_user now)) = now
   \<and> Task.updated_at (fst (create_task db task_data current_user now)) = now
   \<and> Task.title (fst (create_task db task_data current_user now)) = TaskCreate.title task_data
   \<and> Task.description (fst (create_task db task_data current_user now))
       = TaskCreate.description task_data
   \<and> task_rows (snd (create_task db task_data current_user now))
       = task_rows db @ [fst (create_task db task_data current_user now)]"
  by (simp add: create_task_def Task_init_def Let_def)

lemma replaced_row_stored:
  "t \<in> set xs \<Longrightarrow> k r = k t \<Longrightarrow> r \<in> set (map (\<lambda>x. if k x = k r then r else x) xs)"
  by (induction xs) auto

text \<open>
  C7: for every task of the caller and every patch, \<open>update_task\<close> succeeds, stores
  the task it returns, and each of the fields title, description and completed that is
  absent from the patch keeps its prior value (with \<open>completed\<close> absent,
  \<open>completed_at\<close> is kept as well); id, owner and \<open>created_at\<close> never change.
\<close>

theorem update_task_keeps_absent_fields:
  assumes "distinct (map Task.id' (task_rows db))"
    and "t \<in> set (task_rows db)"
    and "Task.user_id t = User.id' u"
  shows "\<exists>r. update_task db (Task.id' t) p u n1 n2 = (Inr r, commit_task r db)
           \<and> r \<in> set (task_rows (commit_task r db))
           \<and> (TaskUpdate.title p = None \<longrightarrow> Task.title r = Task.title t)
           \<and> (TaskUpdate.description p = None \<longrightarrow> Task.description r = Task.description t)
           \<and> (TaskUpdate.completed p = None \<longrightarrow>
                Task.completed r = Task.completed t \<and> Task.completed_at r = Task.completed_at t)
           \<and> Task.id' r = Task.id' t \<and> Task.user_id r = Task.user_id t
           \<and> Task.created_at r = Task.created_at t"
proof -
  define r where "r = update_fields t p n1 n2"
  from assms have "select_task db (Task.id' t) u = [t]"
    by (rule select_task_own)
  then have run: "update_task db (Task.id' t) p u n1 n2 = (Inr r, commit_task r db)"
    by (simp add: handlers_one_row r_def)
  have same_id: "Task.id' r = Task.id' t"
    by (simp add: r_def update_fields_def Let_def split: option.split)
  have stored: "r \<in> set (task_rows (commit_task r db))"
    using assms(2) same_id by (simp add: commit_task_def replaced_row_stored)
  have title: "TaskUpdate.title p = None \<longrightarrow> Task.title r = Task.title t"
    by (simp add: r_def update_fields_def Let_def split: option.split)
  have description: "TaskUpdate.description p = None \<longrightarrow> Task.description r = Task.description t"
    by (simp add: r_def update_fields_def Let_def split: option.split)
  have completed: "TaskUpdate.completed p = None \<longrightarrow>
        Task.completed r = Task.completed t \<and> Task.completed_at r = Task.completed_at t"
    by (simp add: r_def update_fields_def Let_def split: option.split)
  have fixed: "Task.user_id r = Task.user_id t \<and> Task.created_at r = Task.created_at t"
    by (simp add: r_def update_fields_def Let_def split: option.split)
  from run stored title description completed same_id fixed show ?thesis
    by (intro exI [of _ r]) simp
qed

theorem update_task_keeps_absent_fields_witness:
  "distinct (map Task.id' (task_rows sample_db))
   \<and> task1 \<in> set (task_rows sample_db)
   \<and> Task.user_id task1 = User.id' alice
   \<and> TaskUpdate.description rename_only = None
   \<and> TaskUpdate.completed rename_only = None
   \<and> (\<exists>r. update_task sample_db (Task.id' task1) rename_only alice 30 31
              = (Inr r, commit_task r sample_db)
          \<and> Task.description r = Task.description task1
          \<and> Task.completed r = Task.completed task1
          \<and> Task.completed_at r = Task.completed_at task1)"
proof -
  have h1: "distinct (map Task.id' (task_rows sample_db))"
    by (simp add: sample_ids)
  have h2: "task1 \<in> set (task_rows sample_db)"
    by (simp add: sample_db_def)
  have h3: "Task.user_id task1 = User.id' alice"
    by (simp add: task1_def alice_def)
  have h4: "TaskUpdate.description rename_only = None"
    and h5: "TaskUpdate.completed rename_only = None"
    by (simp_all add: rename_only_def)
  from update_task_keeps_absent_fields [OF h1 h2 h3, of rename_only 30 31]
  obtain r where r:
    "update_task sample_db (Task.id' task1) rename_only alice 30 31
       = (Inr r, commit_task r sample_db)
     \<and> r \<in> set (task_rows (commit_task r sample_db))
     \<and> (TaskUpdate.title rename_only = None \<longrightarrow> Task.title r = Task.title task1)
     \<and> (TaskUpdate.description rename_only = None \<longrightarrow>
          Task.description r = Task.description task1)
     \<and> (TaskUpdate.completed rename_only = None \<longrightarrow>
          Task.completed r = Task.completed task1
          \<and> Task.completed_at r = Task.completed_at task1)
     \<and> Task.id' r = Task.id' task1 \<and> Task.user_id r = Task.user_id task1
     \<and> Task.created_at r = Task.created_at task1" ..
  from r have run: "update_task sample_db (Task.id' task1) rename_only alice 30 31
                      = (Inr r, commit_task r sample_db)"
    by (rule conjunct1)
  from r h4 have d: "Task.description r = Task.description task1"
    by (elim conjE) (erule mp)
  from r h5 have c: "Task.completed r = Task.completed task1
                     \<and> Task.completed_at r = Task.completed_at task1"
    by (elim conjE) (erule mp)
  have "\<exists>r. update_task sample_db (Task.id' task1) rename_only alice 30 31
              = (Inr r, commit_task r sample_db)
          \<and> Task.description r = Task.description task1
          \<and> Task.completed r = Task.completed task1
          \<and> Task.completed_at r = Task.completed_at task1"
    using run d c by (intro exI [of _ r] conjI) (elim conjE, assumption)+
  with h1 h2 h3 h4 h5 show ?thesis
    by (intro conjI)
qed

section \<open>Properties of signup and token verification\<close>

text \<open>
  C8: a signup whose email belongs to an existing user raises HTTP 400
  \<open>Email already registered\<close> and returns the database unchanged, so no second user row
  with that email is created. Emails are unique in the user table.
\<close>

theorem signup_duplicate_email:
  assumes "distinct (map User.email (user_rows db))"
    and "SignupRequest.email user_data \<in> User.email ` set (user_rows db)"
  shows "signup encode get_password_hash db user_data uuid4 now_created now_updated now_token
           = (Inl (HTTPException 400 ''Email already registered''), db)"
proof -
  from assms(2) obtain x where x: "x \<in> set (user_rows db)"
    and mail: "User.email x = SignupRequest.email user_data"
    by auto
  have "filter (\<lambda>u. User.email u = User.email x \<and> True) (user_rows db) = [x]"
    using assms(1) x by (rule filter_key_one) simp
  with mail have "filter (\<lambda>u. User.email u = SignupRequest.email user_data) (user_rows db) = [x]"
    by simp
  then show ?thesis
    by (simp add: signup_def HTTP_400_BAD_REQUEST_def)
qed

theorem signup_duplicate_email_witness:
  "distinct (map User.email (user_rows sample_db))
   \<and> SignupRequest.email alice_again \<in> User.email ` set (user_rows sample_db)
   \<and> signup sample_encode (\<lambda>pw. ''hashed'') sample_db alice_again ''u-new'' 40 41 42
       = (Inl (HTTPException 400 ''Email already registered''), sample_db)
   \<and> user_rows sample_db = [alice, bob]"
proof -
  have h1: "distinct (map User.email (user_rows sample_db))"
    by (simp add: sample_db_def alice_def bob_def)
  have h2: "SignupRequest.email alice_again \<in> User.email ` set (user_rows sample_db)"
    by (simp add: sample_db_def alice_def bob_def alice_again_def)
  have h3: "user_rows sample_db = [alice, bob]"
    by (simp add: sample_db_def)
  from signup_duplicate_email [OF h1 h2, of sample_encode "\<lambda>pw. ''hashed''" "''u-new''" 40 41 42]
    h1 h2 h3
  show ?thesis by blast
qed

text \<open>
  C9, as stated, fails in its last part: on success \<open>verify_token\<close> does not return the
  embedded user identity alone. For a token whose payload carries \<open>user_id\<close>, \<open>exp\<close> and
  a further claim \<open>is_admin\<close>, the result is that whole payload, every claim included, and
  not the payload reduced to the user identity.
\<close>

theorem verify_token_returns_whole_payload:
  "verify_token sample_decode ''privileged''
     = Inr (Some [(''user_id'', Str ''u-alice''), (''exp'', Instant 900),
                  (''is_admin'', Str ''true'')])
   \<and> verify_token sample_decode ''privileged'' \<noteq> Inr (Some [(''user_id'', Str ''u-alice'')])"
  by (simp add: verify_token_def sample_decode_def)

text \<open>
  C9, amended: for every token string, \<open>verify_token\<close> returns \<open>None\<close> as a normal result
  exactly when decoding raises a \<^verbatim>\<open>PyJWTError\<close>, which covers a signature that does not
  match, an expiry in the past and a malformed token; it returns a payload exactly when
  decoding returns one, and then the whole decoded payload, unchanged; and it raises
  exactly when decoding raises an exception of another class, which it passes on.
\<close>

theorem verify_token_outcomes:
  "(verify_token decode token = Inr None
      \<longleftrightarrow> (\<exists>e. decode token JWT_SECRET [JWT_ALGORITHM] = Inl (PyJWTError e)))
   \<and> (verify_token decode token = Inr (Some payload)
      \<longleftrightarrow> decode token JWT_SECRET [JWT_ALGORITHM] = Inr payload)
   \<and> (verify_token decode token = Inl x
      \<longleftrightarrow> (\<exists>e. x = OtherException e
               \<and> decode token JWT_SECRET [JWT_ALGORITHM] = Inl (OtherException e)))
   \<and> (decode token JWT_SECRET [JWT_ALGORITHM] = Inl (PyJWTError InvalidSignatureError)
        \<or> decode token JWT_SECRET [JWT_ALGORITHM] = Inl (PyJWTError ExpiredSignatureError)
        \<or> decode token JWT_SECRET [JWT_ALGORITHM] = Inl (PyJWTError DecodeError)
      \<longrightarrow> verify_token decode token = Inr None)"
proof -
  consider (ok) p where "decode token JWT_SECRET [JWT_ALGORITHM] = Inr p"
    | (jwt) e where "decode token JWT_SECRET [JWT_ALGORITHM] = Inl (PyJWTError e)"
    | (other) e where "decode token JWT_SECRET [JWT_ALGORITHM] = Inl (OtherException e)"
  proof (cases "decode token JWT_SECRET [JWT_ALGORITHM]")
    case (Inl r)
    then show ?thesis
      using jwt other by (cases r) simp_all
  next
    case (Inr p)
    then show ?thesis
      using ok by simp
  qed
  then show ?thesis
  proof cases
    case ok
    then show ?thesis by (simp add: verify_token_def)
  next
    case jwt
    then show ?thesis by (simp add: verify_token_def)
  next
    case other
    then show ?thesis by (auto simp add: verify_token_def)
  qed
qed

theorem verify_token_outcomes_witness:
  "sample_decode ''forged'' JWT_SECRET [JWT_ALGORITHM] = Inl (PyJWTError InvalidSignatureError)
   \<and> verify_token sample_decode ''forged'' = Inr None
   \<and> sample_decode ''old'' JWT_SECRET [JWT_ALGORITHM] = Inl (PyJWTError ExpiredSignatureError)
   \<and> verify_token sample_decode ''old'' = Inr None
   \<and> sample_decode ''x.y'' JWT_SECRET [JWT_ALGORITHM] = Inl (PyJWTError DecodeError)
   \<and> verify_token sample_decode ''x.y'' = Inr None
   \<and> sample_decode ''good'' JWT_SECRET [JWT_ALGORITHM]
       = Inr [(''user_id'', Str ''u-alice''), (''exp'', Instant 900)]
   \<and> verify_token sample_decode ''good''
       = Inr (Some [(''user_id'', Str ''u-alice''), (''exp'', Instant 900)])
   \<and> sample_decode ''crash'' JWT_SECRET [JWT_ALGORITHM] = Inl (OtherException ''ValueError'')
   \<and> verify_token sample_decode ''crash'' = Inl (OtherException ''ValueError'')"
proof -
  have d1: "sample_decode ''forged'' JWT_SECRET [JWT_ALGORITHM]
              = Inl (PyJWTError InvalidSignatureError)"
    and d2: "sample_decode ''old'' JWT_SECRET [JWT_ALGORITHM]
              = Inl (PyJWTError ExpiredSignatureError)"
    and d3: "sample_decode ''x.y'' JWT_SECRET [JWT_ALGORITHM] = Inl (PyJWTError DecodeError)"
    and d4: "sample_decode ''good'' JWT_SECRET [JWT_ALGORITHM]
              = Inr [(''user_id'', Str ''u-alice''), (''exp'', Instant 900)]"
    and d5: "sample_decode ''crash'' JWT_SECRET [JWT_ALGORITHM]
              = Inl (OtherException ''ValueError'')"
    by (simp_all add: sample_decode_def)
  from verify_token_outcomes [of sample_decode "''forged''"] d1
  have r1: "verify_token sample_decode ''forged'' = Inr None" by blast
  from verify_token_outcomes [of sample_decode "''old''"] d2
  have r2: "verify_token sample_decode ''old'' = Inr None" by blast
  from verify_token_outcomes [of sample_decode "''x.y''"] d3
  have r3: "verify_token sample_decode ''x.y'' = Inr None" by blast
  from verify_token_outcomes
         [of sample_decode "''good''" "[(''user_id'', Str ''u-alice''), (''exp'', Instant 900)]"] d4
  have r4: "verify_token sample_decode ''good''
              = Inr (Some [(''user_id'', Str ''u-alice''), (''exp'', Instant 900)])" by blast
  from verify_token_outcomes
         [of sample_decode "''crash''" _ "OtherException ''ValueError''"] d5
  have r5: "verify_token sample_decode ''crash'' = Inl (OtherException ''ValueError'')" by blast
  from d1 d2 d3 d4 d5 r1 r2 r3 r4 r5 show ?thesis
    by (intro conjI)
qed

end
